theory Spec2Isabelle
  imports Main "HOL-Library.Word"
begin

section \<open>The thread pool of \<open>utilities/pool_impl.go\<close>\<close>

text \<open>
  The pool is a Go struct guarded by one mutex. Every function below is a function of
  \<open>pool_impl.go\<close>, or one of its locked sections, as a function from the state before to
  the state after. What the pool asks of its collaborators (the answer of \<open>IsEmpty\<close>, the
  outcome of \<open>Dequeue\<close>, the values a user function returns) is an argument of the
  function that asks; what it tells them (a task handed to \<open>GoWithArgs\<close>, an \<open>ErrorInfo\<close>
  handed to \<open>Enqueue\<close>) is appended to a log in the state.

  \<open>Start\<close>, \<open>Close\<close>, \<open>monitorOnce\<close>, \<open>changeMapState\<close> and \<open>deleteMapTid\<close> hold the lock from
  their first line to their last. \<open>monitor\<close> and \<open>threadRunner\<close> take it several times in
  one turn of their loops; their functions below run one task alone, with no other task
  between two of its locked sections.
\<close>

subsection \<open>Data\<close>

type_synonym int32 = "32 word"
type_synonym int64 = "64 word"

text \<open>The constants \<open>WAITING = 0\<close> and \<open>RUNNING = 1\<close>; the map's values are Go \<open>int\<close>s.\<close>

definition WAITING :: int where
  "WAITING = 0"

definition RUNNING :: int where
  "RUNNING = 1"

text \<open>
  \<open>type threadPool struct\<close>, without its mutex. The constructor is the only place that
  builds one and it refuses a nil function queue, so \<open>functionalQueue\<close> holds a queue;
  \<open>errorQueue\<close> may be nil.
\<close>

record ('fq, 'eq) threadPool =
  name :: string
  started :: bool
  closed :: bool
  minThreads :: int32
  maxThreads :: int32
  idleDecay :: int64
  functionalQueue :: 'fq
  errorQueue :: "'eq option"
  currentThreads :: int32
  threadState :: "int64 \<rightharpoonup> int"

text \<open>The four \<open>fmt.Errorf\<close> results of \<open>NewThreadPool\<close>, with the numbers they print.\<close>

datatype error =
    MinimumLessThanZero int32
  | MaximumLessThanOne int32
  | MinimumLessThanMaximum int32 int32
  | NoFunctionalQueue

text \<open>What \<open>GoWithArgs\<close> is asked to run: \<open>threadRunner\<close> or \<open>threadPool.monitor\<close>.\<close>

datatype task = threadRunner_task | monitor_task

text \<open>
  The pool together with the calls it has made so far: \<open>launched\<close> lists the
  \<open>GoWithArgs\<close> calls and \<open>enqueued\<close> the \<open>errorQueue.Enqueue\<close> calls, oldest first.
\<close>

record ('fq, 'eq, 'e) world =
  pool :: "('fq, 'eq) threadPool"
  launched :: "task list"
  enqueued :: "(int64 \<times> 'e) list"

subsection \<open>Construction and accessors\<close>

definition NewThreadPool ::
  "string \<Rightarrow> int32 \<Rightarrow> int32 \<Rightarrow> int64 \<Rightarrow> 'fq option \<Rightarrow> 'eq option \<Rightarrow> error + ('fq, 'eq) threadPool"
where
  "NewThreadPool nm mn mx idle fq eq =
     (if mn <s 0 then Inl (MinimumLessThanZero mn)
      else if mx <s 1 then Inl (MaximumLessThanOne mx)
      else if mn <s mx then Inl (MinimumLessThanMaximum mn mx)
      else case fq of
        None \<Rightarrow> Inl NoFunctionalQueue
      | Some q \<Rightarrow>
          Inr \<lparr>name = nm, started = False, closed = False, minThreads = mn, maxThreads = mx,
               idleDecay = idle, functionalQueue = q, errorQueue = eq, currentThreads = 0,
               threadState = Map.empty\<rparr>)"

text \<open>A pool that has made no call yet.\<close>

definition fresh :: "('fq, 'eq) threadPool \<Rightarrow> ('fq, 'eq, 'e) world" where
  "fresh p = \<lparr>pool = p, launched = [], enqueued = []\<rparr>"

definition IsStarted :: "('fq, 'eq, 'e) world \<Rightarrow> bool" where
  "IsStarted w = started (pool w)"

definition IsClosed :: "('fq, 'eq, 'e) world \<Rightarrow> bool" where
  "IsClosed w = closed (pool w)"

definition GetName :: "('fq, 'eq, 'e) world \<Rightarrow> string" where
  "GetName w = name (pool w)"

definition GetMinThreads :: "('fq, 'eq, 'e) world \<Rightarrow> int32" where
  "GetMinThreads w = minThreads (pool w)"

definition GetMaxThreads :: "('fq, 'eq, 'e) world \<Rightarrow> int32" where
  "GetMaxThreads w = maxThreads (pool w)"

definition GetIdleDecayDuration :: "('fq, 'eq, 'e) world \<Rightarrow> int64" where
  "GetIdleDecayDuration w = idleDecay (pool w)"

definition GetCurrentThreadCount :: "('fq, 'eq, 'e) world \<Rightarrow> int32" where
  "GetCurrentThreadCount w = currentThreads (pool w)"

definition GetFunctionQueue :: "('fq, 'eq, 'e) world \<Rightarrow> 'fq" where
  "GetFunctionQueue w = functionalQueue (pool w)"

definition GetErrorQueue :: "('fq, 'eq, 'e) world \<Rightarrow> 'eq option" where
  "GetErrorQueue w = errorQueue (pool w)"

subsection \<open>Start and Close\<close>

text \<open>\<open>goether.GoWithArgs(f, threadPool)\<close>: one more task is handed to the launcher.\<close>

definition GoWithArgs :: "task \<Rightarrow> ('fq, 'eq, 'e) world \<Rightarrow> ('fq, 'eq, 'e) world" where
  "GoWithArgs t w = w\<lparr>launched := launched w @ [t]\<rparr>"

text \<open>\<open>threadPool.currentThreads++\<close> and \<open>threadPool.currentThreads--\<close>, wrapping as int32 does.\<close>

definition incCurrentThreads :: "('fq, 'eq, 'e) world \<Rightarrow> ('fq, 'eq, 'e) world" where
  "incCurrentThreads w = w\<lparr>pool := (pool w)\<lparr>currentThreads := currentThreads (pool w) + 1\<rparr>\<rparr>"

definition decCurrentThreads :: "('fq, 'eq, 'e) world \<Rightarrow> ('fq, 'eq, 'e) world" where
  "decCurrentThreads w = w\<lparr>pool := (pool w)\<lparr>currentThreads := currentThreads (pool w) - 1\<rparr>\<rparr>"

text \<open>
  A loop counter below some int32 is below the largest int32, so \<open>lcv++\<close> does not wrap.
\<close>

lemma sint_succ_below:
  fixes lcv m :: int32
  assumes "lcv <s m"
  shows "sint (lcv + 1) = sint lcv + 1"
proof -
  have hi: "sint m < 2 ^ 31"
    using sint_lt [of m] by simp
  have lo: "- (2 ^ 31) \<le> sint lcv"
    using sint_ge [of lcv] by simp
  from assms have "sint lcv < sint m"
    by (simp add: word_sless_alt)
  with hi lo show ?thesis
    by (simp add: sint_word_ariths signed_take_bit_int_eq_self)
qed

text \<open>The \<open>for lcv = 0; lcv < threadPool.minThreads; lcv++\<close> loop of \<open>Start\<close>.\<close>

function Start_loop :: "int32 \<Rightarrow> ('fq, 'eq, 'e) world \<Rightarrow> ('fq, 'eq, 'e) world" where
  "Start_loop lcv w =
     (if lcv <s minThreads (pool w)
      then Start_loop (lcv + 1) (incCurrentThreads (GoWithArgs threadRunner_task w))
      else w)"
  by pat_completeness auto
termination
proof (relation "measure (\<lambda>(lcv, w). nat (sint (minThreads (pool w)) - sint lcv))")
  show "wf (measure (\<lambda>(lcv, w). nat (sint (minThreads (pool w)) - sint lcv)))"
    by simp
next
  fix lcv :: int32 and w :: "('fq, 'eq, 'e) world"
  assume below: "lcv <s minThreads (pool w)"
  then have "sint lcv < sint (minThreads (pool w))"
    by (simp add: word_sless_alt)
  with sint_succ_below [OF below]
  show "((lcv + 1, incCurrentThreads (GoWithArgs threadRunner_task w)), (lcv, w))
          \<in> measure (\<lambda>(lcv, w). nat (sint (minThreads (pool w)) - sint lcv))"
    by (simp add: incCurrentThreads_def GoWithArgs_def)
qed

declare Start_loop.simps [simp del]

text \<open>
  \<open>Start\<close>: the loop, then the monitor is launched and \<open>started\<close> is set. Neither
  \<open>started\<close> nor \<open>closed\<close> is read. The result in Go is always \<open>nil\<close>: \<open>None\<close> here.
\<close>

definition Start :: "('fq, 'eq, 'e) world \<Rightarrow> ('fq, 'eq, 'e) world \<times> error option" where
  "Start w =
     (let w1 = Start_loop 0 w;
          w2 = GoWithArgs monitor_task w1
      in (w2\<lparr>pool := (pool w2)\<lparr>started := True\<rparr>\<rparr>, None))"

definition Close :: "('fq, 'eq, 'e) world \<Rightarrow> ('fq, 'eq, 'e) world" where
  "Close w = w\<lparr>pool := (pool w)\<lparr>closed := True\<rparr>\<rparr>"

subsection \<open>The monitor\<close>

text \<open>
  The \<open>range\<close> loop of \<open>monitorOnce\<close> clears \<open>allBusy\<close> as soon as it meets a state equal
  to \<open>WAITING\<close>: \<open>allBusy\<close> stays \<open>true\<close> exactly when no value of the map is \<open>WAITING\<close>.
\<close>

definition allBusy :: "(int64 \<rightharpoonup> int) \<Rightarrow> bool" where
  "allBusy ts = (WAITING \<notin> ran ts)"

text \<open>
  \<open>monitorOnce\<close>; \<open>isEmpty\<close> is what \<open>functionalQueue.IsEmpty()\<close> answers. The second test
  is \<open>currentThreads > maxThreads\<close>, as in the source.
\<close>

definition monitorOnce :: "bool \<Rightarrow> ('fq, 'eq, 'e) world \<Rightarrow> ('fq, 'eq, 'e) world" where
  "monitorOnce isEmpty w =
     (if isEmpty then w
      else if maxThreads (pool w) <s currentThreads (pool w) then w
      else if allBusy (threadState (pool w))
        then incCurrentThreads (GoWithArgs threadRunner_task w)
        else w)"

text \<open>
  How far a task has come: it is still in its loop (the inputs given to it are used up),
  it has returned, or it has panicked.
\<close>

datatype status = Running | Returned | Panicked

text \<open>
  \<open>monitor\<close>: the list holds the answer of \<open>IsEmpty\<close> at each wake-up, one per turn of
  the loop. The test of \<open>closed\<close> comes first in every turn and needs no input.
\<close>

fun monitor :: "bool list \<Rightarrow> ('fq, 'eq, 'e) world \<Rightarrow> status \<times> ('fq, 'eq, 'e) world" where
  "monitor answers w =
     (if IsClosed w then (Returned, w)
      else case answers of
        [] \<Rightarrow> (Running, w)
      | isEmpty # rest \<Rightarrow> monitor rest (monitorOnce isEmpty w))"

declare monitor.simps [simp del]

subsection \<open>What a user function returns\<close>

text \<open>
  \<open>threadRunner\<close> looks at each returned \<open>reflect.Value\<close> through \<open>IsNil\<close>,
  \<open>CanInterface\<close>, \<open>String\<close> and \<open>Interface\<close>. These belong to Go's standard library;
  they are written here as its documentation gives them, over the parts of a value that
  they read.
\<close>

datatype kind =
    Kind_Bool | Kind_Int | Kind_Uint | Kind_Float | Kind_Complex | Kind_Array | Kind_Chan
  | Kind_Func | Kind_Interface | Kind_Map | Kind_Pointer | Kind_Slice | Kind_String
  | Kind_Struct | Kind_UnsafePointer

record 'e Value =
  Kind :: kind
  TypeName :: string
  nil :: bool
  text_of :: string
  readOnly :: bool
  held_error :: "'e option"

text \<open>
  \<open>TypeName\<close> is \<open>v.Type().String()\<close>; \<open>nil\<close> says that the value held is nil;
  \<open>text_of\<close> is the string held by a value of kind String; \<open>readOnly\<close> says that the
  value was reached through an unexported field; \<open>held_error\<close> is the value held, when
  its type implements \<open>error\<close>.

  \<open>IsNil\<close> panics unless the kind is one of chan, func, interface, map, pointer, slice
  and unsafe pointer: \<open>None\<close> is the panic.
\<close>

definition IsNil :: "'e Value \<Rightarrow> bool option" where
  "IsNil v =
     (if Kind v \<in> {Kind_Chan, Kind_Func, Kind_Interface, Kind_Map, Kind_Pointer, Kind_Slice,
                     Kind_UnsafePointer}
      then Some (nil v) else None)"

definition CanInterface :: "'e Value \<Rightarrow> bool" where
  "CanInterface v = (\<not> readOnly v)"

text \<open>
  \<open>String\<close> returns the string held by a value of kind String, and for every other
  kind a string of the form \<open><T Value>\<close>, where \<open>T\<close> is the value's type.
\<close>

definition String_of :: "'e Value \<Rightarrow> string" where
  "String_of v =
     (if Kind v = Kind_String then text_of v else ''<'' @ TypeName v @ '' Value>'')"

text \<open>\<open>retVal.Interface().(error)\<close>: the assertion panics when the value is no error.\<close>

definition Interface_as_error :: "'e Value \<Rightarrow> 'e option" where
  "Interface_as_error v = held_error v"

text \<open>
  A descriptor taken from the function queue. \<open>UserCall\<close> applied to \<open>Args\<close> is what
  \<open>reflect.ValueOf(descriptor.UserCall).Call(argsAsVals)\<close> returns; \<open>None\<close> when the
  call panics.
\<close>

record ('a, 'e) descriptor =
  Args :: "'a list"
  UserCall :: "'a list \<Rightarrow> 'e Value list option"

text \<open>The errors of \<open>Dequeue\<close>: \<open>goethe.ErrEmptyQueue\<close>, or any other.\<close>

datatype queue_error = ErrEmptyQueue | ErrOther

subsection \<open>The worker\<close>

definition changeMapState ::
  "int64 \<Rightarrow> int \<Rightarrow> ('fq, 'eq, 'e) world \<Rightarrow> ('fq, 'eq, 'e) world"
where
  "changeMapState tid newState w =
     w\<lparr>pool := (pool w)\<lparr>threadState := (threadState (pool w))(tid \<mapsto> newState)\<rparr>\<rparr>"

definition deleteMapTid :: "int64 \<Rightarrow> ('fq, 'eq, 'e) world \<Rightarrow> ('fq, 'eq, 'e) world" where
  "deleteMapTid tid w =
     w\<lparr>pool := (pool w)\<lparr>threadState := (threadState (pool w))(tid := None)\<rparr>\<rparr>"

text \<open>
  Modelled from the spec: \<open>newErrorinformation\<close> is not among the sources; the spec gives
  ErrorInfo as \<open>(producingTaskId, error)\<close>.
\<close>

definition newErrorinformation :: "int64 \<Rightarrow> 'e \<Rightarrow> int64 \<times> 'e" where
  "newErrorinformation tid asErr = (tid, asErr)"

text \<open>\<open>threadPool.errorQueue.Enqueue(errInfo)\<close>.\<close>

definition Enqueue :: "int64 \<times> 'e \<Rightarrow> ('fq, 'eq, 'e) world \<Rightarrow> ('fq, 'eq, 'e) world" where
  "Enqueue errInfo w = w\<lparr>enqueued := enqueued w @ [errInfo]\<rparr>"

text \<open>What one turn of a loop ends in.\<close>

datatype outcome = Continue | Return | Panic

text \<open>
  The \<open>for _, retVal := range retVals\<close> loop of \<open>threadRunner\<close>. Go's \<open>&&\<close> evaluates
  \<open>IsNil\<close> first, so its panic comes before the other two tests.
\<close>

fun inspect_retVals ::
  "int64 \<Rightarrow> 'e Value list \<Rightarrow> ('fq, 'eq, 'e) world \<Rightarrow> outcome \<times> ('fq, 'eq, 'e) world"
where
  "inspect_retVals tid [] w = (Continue, w)"
| "inspect_retVals tid (retVal # rest) w =
     (case IsNil retVal of
        None \<Rightarrow> (Panic, w)
      | Some isnil \<Rightarrow>
          if \<not> isnil \<and> CanInterface retVal \<and> String_of retVal = ''error''
          then (case Interface_as_error retVal of
                  None \<Rightarrow> (Panic, w)
                | Some asErr \<Rightarrow>
                    inspect_retVals tid rest (Enqueue (newErrorinformation tid asErr) w))
          else inspect_retVals tid rest w)"

text \<open>
  The locked section after \<open>Dequeue\<close> has returned \<open>goethe.ErrEmptyQueue\<close>: the worker
  leaves when there are more threads than the minimum.
\<close>

definition on_empty_queue :: "('fq, 'eq, 'e) world \<Rightarrow> outcome \<times> ('fq, 'eq, 'e) world" where
  "on_empty_queue w =
     (if minThreads (pool w) <s currentThreads (pool w)
      then (Return, decCurrentThreads w)
      else (Continue, w))"

text \<open>
  The branch that has a descriptor: the worker marks itself \<open>RUNNING\<close>, calls the user
  function and, when there is an error queue and a returned value, inspects the values.
\<close>

definition run_descriptor ::
  "int64 \<Rightarrow> ('a, 'e) descriptor \<Rightarrow> ('fq, 'eq, 'e) world \<Rightarrow> outcome \<times> ('fq, 'eq, 'e) world"
where
  "run_descriptor tid descriptor w =
     (let w2 = changeMapState tid RUNNING w in
      case UserCall descriptor (Args descriptor) of
        None \<Rightarrow> (Panic, w2)
      | Some retVals \<Rightarrow>
          if errorQueue (pool w2) \<noteq> None \<and> 0 < length retVals
          then inspect_retVals tid retVals w2
          else (Continue, w2))"

text \<open>
  One turn of the \<open>for\<close> loop of \<open>threadRunner\<close>; \<open>dequeued\<close> is what \<open>Dequeue\<close> returns
  in this turn (the error, or the descriptor). It is not asked for when the pool is closed.
\<close>

definition threadRunner_turn ::
  "int64 \<Rightarrow> queue_error + ('a, 'e) descriptor \<Rightarrow> ('fq, 'eq, 'e) world
     \<Rightarrow> outcome \<times> ('fq, 'eq, 'e) world"
where
  "threadRunner_turn tid dequeued w =
     (if IsClosed w then (Return, decCurrentThreads w)
      else
        let w1 = changeMapState tid WAITING w in
        case dequeued of
          Inl err \<Rightarrow> if err = ErrEmptyQueue then on_empty_queue w1 else (Return, w1)
        | Inr descriptor \<Rightarrow> run_descriptor tid descriptor w1)"

text \<open>
  The \<open>for\<close> loop of \<open>threadRunner\<close>, over what \<open>Dequeue\<close> returns in each turn. When the
  list is used up the worker is either gone (the pool is closed) or waits in \<open>Dequeue\<close>,
  marked \<open>WAITING\<close>.
\<close>

fun threadRunner_loop ::
  "int64 \<Rightarrow> (queue_error + ('a, 'e) descriptor) list \<Rightarrow> ('fq, 'eq, 'e) world
     \<Rightarrow> status \<times> ('fq, 'eq, 'e) world"
where
  "threadRunner_loop tid [] w =
     (if IsClosed w then (Returned, decCurrentThreads w)
      else (Running, changeMapState tid WAITING w))"
| "threadRunner_loop tid (dequeued # rest) w =
     (case threadRunner_turn tid dequeued w of
        (Continue, w') \<Rightarrow> threadRunner_loop tid rest w'
      | (Return, w') \<Rightarrow> (Returned, w')
      | (Panic, w') \<Rightarrow> (Panicked, w'))"

text \<open>
  \<open>threadRunner\<close>: \<open>tid\<close> is what \<open>GetThreadID\<close> answers. The deferred \<open>deleteMapTid\<close>
  runs when the loop is left, by a return or by a panic.
\<close>

definition threadRunner ::
  "int64 \<Rightarrow> (queue_error + ('a, 'e) descriptor) list \<Rightarrow> ('fq, 'eq, 'e) world
     \<Rightarrow> status \<times> ('fq, 'eq, 'e) world"
where
  "threadRunner tid dequeues w =
     (case threadRunner_loop tid dequeues w of
        (Running, w') \<Rightarrow> (Running, w')
      | (st, w') \<Rightarrow> (st, deleteMapTid tid w'))"

subsection \<open>Sequences of operations\<close>

text \<open>
  The functions of \<open>pool_impl.go\<close> that write to the pool, each with the inputs it takes
  from outside; the accessors write nothing. The last three are the sections of
  \<open>threadRunner\<close> that write outside \<open>changeMapState\<close> and \<open>deleteMapTid\<close>: the decrement
  of a worker that found the pool closed, the locked section after an empty queue, and
  one \<open>Enqueue\<close>. Whatever the tasks of a program do to one pool, one between the locked
  sections of another, is a sequence of these.
\<close>

datatype ('a, 'e) operation =
    Op_Start
  | Op_Close
  | Op_monitor "bool list"
  | Op_monitorOnce bool
  | Op_threadRunner int64 "(queue_error + ('a, 'e) descriptor) list"
  | Op_changeMapState int64 int
  | Op_deleteMapTid int64
  | Op_decCurrentThreads
  | Op_on_empty_queue
  | Op_Enqueue "int64 \<times> 'e"

fun perform :: "('a, 'e) operation \<Rightarrow> ('fq, 'eq, 'e) world \<Rightarrow> ('fq, 'eq, 'e) world" where
  "perform Op_Start w = fst (Start w)"
| "perform Op_Close w = Close w"
| "perform (Op_monitor answers) w = snd (monitor answers w)"
| "perform (Op_monitorOnce isEmpty) w = monitorOnce isEmpty w"
| "perform (Op_threadRunner tid dequeues) w = snd (threadRunner tid dequeues w)"
| "perform (Op_changeMapState tid newState) w = changeMapState tid newState w"
| "perform (Op_deleteMapTid tid) w = deleteMapTid tid w"
| "perform Op_decCurrentThreads w = decCurrentThreads w"
| "perform Op_on_empty_queue w = snd (on_empty_queue w)"
| "perform (Op_Enqueue errInfo) w = Enqueue errInfo w"

fun run :: "('a, 'e) operation list \<Rightarrow> ('fq, 'eq, 'e) world \<Rightarrow> ('fq, 'eq, 'e) world" where
  "run [] w = w"
| "run (operation # rest) w = run rest (perform operation w)"

text \<open>What the six configuration accessors return, together.\<close>

definition configuration ::
  "('fq, 'eq, 'e) world \<Rightarrow> string \<times> int32 \<times> int32 \<times> int64 \<times> 'fq \<times> 'eq option"
where
  "configuration w =
     (GetName w, GetMinThreads w, GetMaxThreads w, GetIdleDecayDuration w,
      GetFunctionQueue w, GetErrorQueue w)"

subsection \<open>A pool to run the code on\<close>

text \<open>
  The pool that \<open>NewThreadPool("pool", 1, 1, 60, fq, eq)\<close> returns, with a function queue
  and, when \<open>eq\<close> is not nil, an error queue; errors are their messages.
\<close>

definition pool_1_1 :: "unit option \<Rightarrow> (unit, unit) threadPool" where
  "pool_1_1 eq =
     \<lparr>name = ''pool'', started = False, closed = False, minThreads = 1, maxThreads = 1,
      idleDecay = 60, functionalQueue = (), errorQueue = eq, currentThreads = 0,
      threadState = Map.empty\<rparr>"

definition world_1_1 :: "unit option \<Rightarrow> (unit, unit, string) world" where
  "world_1_1 eq = fresh (pool_1_1 eq)"

text \<open>A user function \<open>func() error\<close> that returns the error \<open>boom\<close>.\<close>

definition boom :: "string Value" where
  "boom = \<lparr>Kind = Kind_Interface, TypeName = ''error'', nil = False, text_of = [],
            readOnly = False, held_error = Some ''boom''\<rparr>"

definition failing_descriptor :: "(unit, string) descriptor" where
  "failing_descriptor = \<lparr>Args = [], UserCall = (\<lambda>args. Some [boom])\<rparr>"

text \<open>Some operations in a row, and the pool after \<open>Start\<close> and \<open>Close\<close>.\<close>

definition some_operations :: "(unit, string) operation list" where
  "some_operations = [Op_Start, Op_monitorOnce False, Op_Close, Op_threadRunner 7 []]"


section \<open>Properties\<close>

subsection \<open>What each function does to the state\<close>

text \<open>The loop of \<open>Start\<close> in closed form: one worker and one increment per turn.\<close>

lemma Start_loop_effect:
  "Start_loop lcv w =
     w\<lparr>pool := (pool w)\<lparr>currentThreads :=
              currentThreads (pool w) + of_nat (nat (sint (minThreads (pool w)) - sint lcv))\<rparr>,
       launched := launched w @ replicate (nat (sint (minThreads (pool w)) - sint lcv)) threadRunner_task\<rparr>"
proof (induction lcv w rule: Start_loop.induct)
  case (1 lcv w)
  let ?m = "minThreads (pool w)"
  show ?case
  proof (cases "lcv <s ?m")
    case True
    let ?w' = "incCurrentThreads (GoWithArgs threadRunner_task w)"
    have m': "minThreads (pool ?w') = ?m"
      by (simp add: incCurrentThreads_def GoWithArgs_def)
    have lt: "sint lcv < sint ?m"
      using True by (simp add: word_sless_alt)
    have n: "nat (sint ?m - sint lcv) = Suc (nat (sint ?m - sint (lcv + 1)))"
      using lt sint_succ_below [OF True] by simp
    have "Start_loop lcv w = Start_loop (lcv + 1) ?w'"
      using True by (simp add: Start_loop.simps [of lcv w])
    also have "\<dots> = ?w'\<lparr>pool := (pool ?w')\<lparr>currentThreads :=
              currentThreads (pool ?w') + of_nat (nat (sint ?m - sint (lcv + 1)))\<rparr>,
       launched := launched ?w' @ replicate (nat (sint ?m - sint (lcv + 1))) threadRunner_task\<rparr>"
      using "1.IH" [OF True] m' by simp
    also have "\<dots> = w\<lparr>pool := (pool w)\<lparr>currentThreads :=
              currentThreads (pool w) + of_nat (nat (sint ?m - sint lcv))\<rparr>,
       launched := launched w @ replicate (nat (sint ?m - sint lcv)) threadRunner_task\<rparr>"
      unfolding n by (simp add: incCurrentThreads_def GoWithArgs_def)
    finally show ?thesis .
  next
    case False
    then have "sint ?m - sint lcv \<le> 0"
      by (simp add: word_sless_alt)
    then have "nat (sint ?m - sint lcv) = 0" by simp
    with False show ?thesis by (simp add: Start_loop.simps [of lcv w])
  qed
qed

text \<open>\<open>Start\<close> in closed form.\<close>

lemma Start_eq:
  "Start w =
     (w\<lparr>pool := (pool w)\<lparr>currentThreads :=
                             currentThreads (pool w) + of_nat (nat (sint (minThreads (pool w)))),
                           started := True\<rparr>,
        launched := launched w @ replicate (nat (sint (minThreads (pool w)))) threadRunner_task
                      @ [monitor_task]\<rparr>, None)"
  by (simp add: Start_def Start_loop_effect GoWithArgs_def Let_def)

text \<open>No function of the pool writes to a field that an accessor of the configuration reads.\<close>

lemmas accessor_defs = GetName_def GetMinThreads_def GetMaxThreads_def GetIdleDecayDuration_def
  GetFunctionQueue_def GetErrorQueue_def

lemma configuration_Start: "configuration (fst (Start w)) = configuration w"
  by (simp add: Start_eq configuration_def accessor_defs)

lemma configuration_Close: "configuration (Close w) = configuration w"
  by (simp add: Close_def configuration_def accessor_defs)

lemma configuration_monitorOnce: "configuration (monitorOnce e w) = configuration w"
  by (simp add: monitorOnce_def incCurrentThreads_def GoWithArgs_def configuration_def accessor_defs)

lemma configuration_monitor: "configuration (snd (monitor es w)) = configuration w"
proof (induction es arbitrary: w)
  case Nil
  show ?case by (simp add: monitor.simps [of "[]"])
next
  case (Cons e es)
  show ?case
    by (simp add: monitor.simps [of "e # es"] Cons.IH configuration_monitorOnce)
qed

lemma configuration_changeMapState: "configuration (changeMapState tid st w) = configuration w"
  by (simp add: changeMapState_def configuration_def accessor_defs)

lemma configuration_deleteMapTid: "configuration (deleteMapTid tid w) = configuration w"
  by (simp add: deleteMapTid_def configuration_def accessor_defs)

lemma configuration_decCurrentThreads: "configuration (decCurrentThreads w) = configuration w"
  by (simp add: decCurrentThreads_def configuration_def accessor_defs)

lemma configuration_Enqueue: "configuration (Enqueue i w) = configuration w"
  by (simp add: Enqueue_def configuration_def accessor_defs)

lemma configuration_inspect_retVals:
  "configuration (snd (inspect_retVals tid vs w)) = configuration w"
  by (induction vs arbitrary: w) (simp_all add: configuration_Enqueue split: option.splits)

lemma configuration_on_empty_queue: "configuration (snd (on_empty_queue w)) = configuration w"
  by (simp add: on_empty_queue_def configuration_decCurrentThreads)

lemma configuration_run_descriptor:
  "configuration (snd (run_descriptor tid d w)) = configuration w"
  by (simp add: run_descriptor_def Let_def configuration_inspect_retVals
      configuration_changeMapState split: option.splits)

lemma configuration_threadRunner_turn:
  "configuration (snd (threadRunner_turn tid dq w)) = configuration w"
  by (simp add: threadRunner_turn_def Let_def configuration_decCurrentThreads
      configuration_on_empty_queue configuration_run_descriptor configuration_changeMapState
      split: sum.splits)

lemma configuration_threadRunner_loop:
  "configuration (snd (threadRunner_loop tid dqs w)) = configuration w"
proof (induction dqs arbitrary: w)
  case Nil
  show ?case by (simp add: configuration_decCurrentThreads configuration_changeMapState)
next
  case (Cons dq dqs)
  obtain out w' where turn: "threadRunner_turn tid dq w = (out, w')"
    by (cases "threadRunner_turn tid dq w")
  then have "configuration w' = configuration w"
    using configuration_threadRunner_turn [of tid dq w] by simp
  with turn Cons.IH [of w'] show ?case
    by (cases out) simp_all
qed

lemma configuration_threadRunner:
  "configuration (snd (threadRunner tid dqs w)) = configuration w"
proof -
  obtain st w' where loop: "threadRunner_loop tid dqs w = (st, w')"
    by (cases "threadRunner_loop tid dqs w")
  then have "configuration w' = configuration w"
    using configuration_threadRunner_loop [of tid dqs w] by simp
  with loop show ?thesis
    by (cases st) (simp_all add: threadRunner_def configuration_deleteMapTid)
qed

lemma configuration_perform: "configuration (perform operation w) = configuration w"
  by (cases operation)
    (simp_all add: configuration_Start configuration_Close configuration_monitor
      configuration_monitorOnce configuration_threadRunner configuration_changeMapState
      configuration_deleteMapTid configuration_decCurrentThreads configuration_on_empty_queue
      configuration_Enqueue)

lemma configuration_run: "configuration (run operations w) = configuration w"
  by (induction operations arbitrary: w) (simp_all add: configuration_perform)


lemma sint_succ_le:
  fixes c :: int32
  shows "sint (c + 1) \<le> sint c + 1"
proof (cases "sint c < 2 ^ 31 - 1")
  case True
  have "- (2 ^ 31) \<le> sint c"
    using sint_ge [of c] by simp
  with True have "sint (c + 1) = sint c + 1"
    by (simp add: sint_word_ariths signed_take_bit_int_eq_self)
  then show ?thesis by simp
next
  case False
  have "sint (c + 1) < 2 ^ 31"
    using sint_lt [of "c + 1"] by simp
  with False show ?thesis by simp
qed

lemma of_nat_nat_sint:
  fixes m :: int32
  assumes "0 \<le>s m"
  shows "(of_nat (nat (sint m)) :: int32) = m"
proof -
  from assms have "0 \<le> sint m"
    by (simp add: word_sle_eq)
  then have "(of_nat (nat (sint m)) :: int32) = of_int (sint m)"
    by simp
  then show ?thesis by simp
qed


lemma IsClosed_monitorOnce: "IsClosed (monitorOnce e w) = IsClosed w"
  by (simp add: monitorOnce_def incCurrentThreads_def GoWithArgs_def IsClosed_def)

lemma IsClosed_monitor: "IsClosed (snd (monitor es w)) = IsClosed w"
proof (induction es arbitrary: w)
  case Nil
  show ?case by (simp add: monitor.simps [of "[]"])
next
  case (Cons e es)
  show ?case
    by (simp add: monitor.simps [of "e # es"] Cons.IH IsClosed_monitorOnce)
qed






text \<open>
  The test \<open>retVal.String() == "error"\<close> holds only for a value of kind String, on which
  \<open>IsNil\<close> has panicked before: the loop over the returned values enqueues nothing.
\<close>

lemma String_of_error_is_String:
  assumes "String_of v = ''error''"
  shows "Kind v = Kind_String"
  using assms by (auto simp add: String_of_def split: if_splits)

lemma inspect_retVals_never_enqueues:
  "enqueued (snd (inspect_retVals tid vs w)) = enqueued w"
proof (induction vs arbitrary: w)
  case Nil
  show ?case by simp
next
  case (Cons v vs)
  show ?case
  proof (cases "String_of v = ''error''")
    case True
    then have "IsNil v = None"
      using String_of_error_is_String [OF True] by (simp add: IsNil_def)
    then show ?thesis by simp
  next
    case False
    then show ?thesis
      by (simp add: Cons.IH split: option.splits)
  qed
qed

subsection \<open>Construction\<close>

lemma NewThreadPool_pool_1_1:
  "NewThreadPool ''pool'' 1 1 60 (Some ()) eq = Inr (pool_1_1 eq)"
  by (simp add: NewThreadPool_def pool_1_1_def word_sless_alt)

lemma NewThreadPool_succeeds_iff:
  "(\<exists>p. NewThreadPool nm mn mx idle fq eq = Inr p)
     \<longleftrightarrow> 0 \<le>s mn \<and> 1 \<le>s mx \<and> mx \<le>s mn \<and> fq \<noteq> None"
  by (cases fq) (auto simp add: NewThreadPool_def word_sless_alt word_sle_eq)

text \<open>
  Claim C1 says that construction succeeds exactly when \<open>min \<ge> 0\<close>, \<open>max \<ge> 1\<close>,
  \<open>min \<le> max\<close> and the function queue is present, and in particular for every
  \<open>0 \<le> min < max\<close>. The code tests \<open>min < max\<close> and returns an error when it holds:
  with \<open>min = 1\<close>, \<open>max = 4\<close> and a function queue, \<open>NewThreadPool\<close> returns the error
  "minimum (1) is less than maximum (4)" and no pool.
\<close>

theorem NewThreadPool_min_1_max_4:
  "NewThreadPool ''pool'' 1 4 60 (Some ()) (None :: unit option)
     = Inl (MinimumLessThanMaximum 1 4)"
  by (simp add: NewThreadPool_def word_sless_alt)

subsection \<open>The monitor's limit\<close>

text \<open>
  Claim C2 says that a started, open pool keeps \<open>min \<le> currentThreads \<le> max\<close>, and that
  \<open>monitorOnce\<close> launches no worker when \<open>currentThreads \<ge> maxThreads\<close>. The code returns
  only when \<open>currentThreads > maxThreads\<close>: in the pool built with \<open>min = max = 1\<close>, after
  \<open>Start\<close> and with its worker \<open>RUNNING\<close> and the queue not empty, \<open>currentThreads\<close> is 1,
  equal to the limit, and \<open>monitorOnce\<close> launches a second worker and makes it 2.
\<close>

theorem monitorOnce_at_limit_grows:
  "IsStarted (changeMapState 7 RUNNING (fst (Start (world_1_1 None))))
   \<and> \<not> IsClosed (changeMapState 7 RUNNING (fst (Start (world_1_1 None))))
   \<and> GetCurrentThreadCount (changeMapState 7 RUNNING (fst (Start (world_1_1 None)))) = 1
   \<and> GetMaxThreads (changeMapState 7 RUNNING (fst (Start (world_1_1 None)))) = 1
   \<and> GetMaxThreads (monitorOnce False (changeMapState 7 RUNNING (fst (Start (world_1_1 None))))) = 1
   \<and> GetCurrentThreadCount
         (monitorOnce False (changeMapState 7 RUNNING (fst (Start (world_1_1 None))))) = 2
   \<and> launched (monitorOnce False (changeMapState 7 RUNNING (fst (Start (world_1_1 None)))))
       = [threadRunner_task, monitor_task, threadRunner_task]"
  by (simp add: Start_eq IsStarted_def IsClosed_def GetCurrentThreadCount_def GetMaxThreads_def
      world_1_1_def fresh_def pool_1_1_def changeMapState_def monitorOnce_def allBusy_def
      incCurrentThreads_def GoWithArgs_def WAITING_def RUNNING_def word_sless_alt)

subsection \<open>The worker's ways out\<close>

text \<open>
  Claim C3 says that every way out of the worker decrements \<open>currentThreads\<close>, also the
  one taken on a \<open>Dequeue\<close> error other than the empty queue. In the code that way out
  returns at once: in the pool built with \<open>min = max = 1\<close>, after \<open>Start\<close>, the worker that
  meets such an error returns and is deleted from \<open>threadState\<close>, and \<open>currentThreads\<close> is
  still 1 with no worker left.
\<close>

theorem other_dequeue_error_keeps_count:
  "GetCurrentThreadCount (fst (Start (world_1_1 None))) = 1
   \<and> launched (fst (Start (world_1_1 None))) = [threadRunner_task, monitor_task]
   \<and> threadRunner 7 [Inl ErrOther :: queue_error + (unit, string) descriptor]
         (fst (Start (world_1_1 None)))
       = (Returned, fst (Start (world_1_1 None)))
   \<and> threadState (pool (fst (Start (world_1_1 None)))) = Map.empty"
  by (simp add: Start_eq GetCurrentThreadCount_def world_1_1_def fresh_def pool_1_1_def
      threadRunner_def threadRunner_turn_def IsClosed_def changeMapState_def deleteMapTid_def
      Let_def)



subsection \<open>Errors of user functions\<close>

text \<open>
  Claim C4 says that a non-nil error returned by a user function is enqueued on the error
  queue, when there is one, with the worker's task id, and that the worker goes on. The
  code compares \<open>retVal.String()\<close> with \<open>"error"\<close>, and for a returned \<open>error\<close> that string is
  \<open><error Value>\<close>: in the pool built with an error queue, the worker that runs a function
  returning the error \<open>boom\<close> goes on and nothing is enqueued.
\<close>

theorem returned_error_not_enqueued:
  "errorQueue (pool (fst (Start (world_1_1 (Some ()))))) = Some ()
   \<and> UserCall failing_descriptor (Args failing_descriptor) = Some [boom]
   \<and> IsNil boom = Some False
   \<and> CanInterface boom
   \<and> Interface_as_error boom = Some ''boom''
   \<and> String_of boom = ''<error Value>''
   \<and> threadRunner_turn 7 (Inr failing_descriptor) (fst (Start (world_1_1 (Some ()))))
       = (Continue,
          changeMapState 7 RUNNING (changeMapState 7 WAITING (fst (Start (world_1_1 (Some ()))))))
   \<and> enqueued
         (changeMapState 7 RUNNING (changeMapState 7 WAITING (fst (Start (world_1_1 (Some ()))))))
       = []"
  by (simp add: Start_eq world_1_1_def fresh_def pool_1_1_def failing_descriptor_def boom_def
      IsNil_def CanInterface_def Interface_as_error_def String_of_def threadRunner_turn_def
      run_descriptor_def IsClosed_def changeMapState_def Let_def)

text \<open>
  Claim C9: in a pool without an error queue, the worker that has called a user function
  looks at none of the returned values, enqueues nothing and goes on with the next turn
  of its loop, whatever the function returned; the last line says so of the branch that
  runs the descriptor, in whatever state \<open>v\<close> it starts.
\<close>

theorem absent_error_queue_drops:
  fixes w v :: "('fq, 'eq, 'e) world" and descriptor :: "('a, 'e) descriptor"
  assumes "errorQueue (pool w) = None"
    and "\<not> IsClosed w"
    and "UserCall descriptor (Args descriptor) = Some retVals"
  shows "threadRunner_turn tid (Inr descriptor) w
           = (Continue, changeMapState tid RUNNING (changeMapState tid WAITING w))
       \<and> enqueued (changeMapState tid RUNNING (changeMapState tid WAITING w)) = enqueued w
       \<and> threadRunner_loop tid (Inr descriptor # rest) w
           = threadRunner_loop tid rest (changeMapState tid RUNNING (changeMapState tid WAITING w))
       \<and> (errorQueue (pool v) = None \<longrightarrow>
            run_descriptor tid descriptor v = (Continue, changeMapState tid RUNNING v))"
proof -
  have turn: "threadRunner_turn tid (Inr descriptor) w
           = (Continue, changeMapState tid RUNNING (changeMapState tid WAITING w))"
    using assms
    by (simp add: threadRunner_turn_def run_descriptor_def Let_def changeMapState_def)
  have "run_descriptor tid descriptor v = (Continue, changeMapState tid RUNNING v)"
    if "errorQueue (pool v) = None"
    using that assms(3) by (simp add: run_descriptor_def Let_def changeMapState_def)
  with turn show ?thesis
    by (simp add: changeMapState_def)
qed

theorem absent_error_queue_drops_witness:
  "errorQueue (pool (fst (Start (world_1_1 None)))) = None
   \<and> \<not> IsClosed (fst (Start (world_1_1 None)))
   \<and> UserCall failing_descriptor (Args failing_descriptor) = Some [boom]
   \<and> threadRunner_turn 7 (Inr failing_descriptor) (fst (Start (world_1_1 None)))
       = (Continue,
          changeMapState 7 RUNNING (changeMapState 7 WAITING (fst (Start (world_1_1 None)))))
   \<and> enqueued (changeMapState 7 RUNNING (changeMapState 7 WAITING (fst (Start (world_1_1 None)))))
       = []"
proof -
  have no_queue: "errorQueue (pool (fst (Start (world_1_1 None)))) = None"
    by (simp add: Start_eq world_1_1_def fresh_def pool_1_1_def)
  have is_open: "\<not> IsClosed (fst (Start (world_1_1 None)))"
    by (simp add: Start_eq world_1_1_def fresh_def pool_1_1_def IsClosed_def)
  have returns: "UserCall failing_descriptor (Args failing_descriptor) = Some [boom]"
    by (simp add: failing_descriptor_def)
  have none_before: "enqueued (fst (Start (world_1_1 None))) = []"
    by (simp add: Start_eq world_1_1_def fresh_def)
  show ?thesis
    using absent_error_queue_drops [OF no_queue is_open returns, of 7 "[]"]
      no_queue is_open returns none_before
    by simp
qed

subsection \<open>Growth\<close>

text \<open>
  Claim C8: one run of \<open>monitorOnce\<close> either changes nothing or launches one worker and
  adds one to \<open>currentThreads\<close>; it launches only when the queue is not empty and no state
  in \<open>threadState\<close> is \<open>WAITING\<close>, which for states that are \<open>WAITING\<close> or \<open>RUNNING\<close> means
  that all are \<open>RUNNING\<close>. It never writes to \<open>threadState\<close>, so it removes no worker.
\<close>

theorem monitorOnce_grows_by_one:
  assumes "ran (threadState (pool w)) \<subseteq> {WAITING, RUNNING}"
  shows "threadState (pool (monitorOnce isEmpty w)) = threadState (pool w)
       \<and> enqueued (monitorOnce isEmpty w) = enqueued w
       \<and> sint (currentThreads (pool (monitorOnce isEmpty w))) \<le> sint (currentThreads (pool w)) + 1
       \<and> (monitorOnce isEmpty w = w
          \<or> launched (monitorOnce isEmpty w) = launched w @ [threadRunner_task]
            \<and> currentThreads (pool (monitorOnce isEmpty w)) = currentThreads (pool w) + 1
            \<and> \<not> isEmpty
            \<and> WAITING \<notin> ran (threadState (pool w))
            \<and> ran (threadState (pool w)) \<subseteq> {RUNNING})"
proof (cases "isEmpty \<or> maxThreads (pool w) <s currentThreads (pool w)
                \<or> \<not> allBusy (threadState (pool w))")
  case True
  then have "monitorOnce isEmpty w = w"
    by (auto simp add: monitorOnce_def)
  then show ?thesis
    using sint_succ_le [of "currentThreads (pool w)"] by simp
next
  case False
  then have grown: "monitorOnce isEmpty w = incCurrentThreads (GoWithArgs threadRunner_task w)"
    by (simp add: monitorOnce_def)
  from False have busy: "WAITING \<notin> ran (threadState (pool w))"
    by (simp add: allBusy_def)
  with assms have "ran (threadState (pool w)) \<subseteq> {RUNNING}"
    by auto
  with False busy show ?thesis
    unfolding grown
    using sint_succ_le [of "currentThreads (pool w)"]
    by (simp add: incCurrentThreads_def GoWithArgs_def)
qed

theorem monitorOnce_grows_by_one_witness:
  "ran (threadState (pool (changeMapState 7 RUNNING (fst (Start (world_1_1 None))))))
     \<subseteq> {WAITING, RUNNING}
   \<and> launched (monitorOnce False (changeMapState 7 RUNNING (fst (Start (world_1_1 None)))))
       = [threadRunner_task, monitor_task, threadRunner_task]
   \<and> monitorOnce True (changeMapState 7 RUNNING (fst (Start (world_1_1 None))))
       = changeMapState 7 RUNNING (fst (Start (world_1_1 None)))
   \<and> monitorOnce False (changeMapState 7 WAITING (fst (Start (world_1_1 None))))
       = changeMapState 7 WAITING (fst (Start (world_1_1 None)))"
proof -
  let ?w = "changeMapState 7 RUNNING (fst (Start (world_1_1 None)))"
  have valid: "ran (threadState (pool ?w)) \<subseteq> {WAITING, RUNNING}"
    by (simp add: Start_eq world_1_1_def fresh_def pool_1_1_def changeMapState_def)
  have grown: "launched (monitorOnce False ?w) = [threadRunner_task, monitor_task, threadRunner_task]"
    by (simp add: Start_eq world_1_1_def fresh_def pool_1_1_def changeMapState_def
        monitorOnce_def allBusy_def incCurrentThreads_def GoWithArgs_def WAITING_def RUNNING_def
        word_sless_alt)
  have waiting: "monitorOnce False (changeMapState 7 WAITING (fst (Start (world_1_1 None))))
       = changeMapState 7 WAITING (fst (Start (world_1_1 None)))"
    by (simp add: Start_eq world_1_1_def fresh_def pool_1_1_def changeMapState_def
        monitorOnce_def allBusy_def word_sless_alt)
  show ?thesis
    using monitorOnce_grows_by_one [OF valid, of True] grown waiting valid
    by (simp add: monitorOnce_def)
qed

subsection \<open>Start and Close\<close>

text \<open>
  Claim C5 says that the first \<open>Start\<close> launches \<open>min\<close> workers and one monitor, sets
  \<open>currentThreads\<close> to \<open>min\<close> and \<open>started\<close> to true and returns no error, and that a further
  \<open>Start\<close> changes nothing. \<open>Start\<close> does not read \<open>started\<close>: in the pool built with
  \<open>min = max = 1\<close> a second \<open>Start\<close> launches a second worker and a second monitor and makes
  \<open>currentThreads\<close> 2.
\<close>

theorem Start_twice_not_idempotent:
  "started (pool (fst (Start (world_1_1 None))))
   \<and> currentThreads (pool (fst (Start (world_1_1 None)))) = 1
   \<and> currentThreads (pool (fst (Start (fst (Start (world_1_1 None)))))) = 2
   \<and> launched (fst (Start (world_1_1 None))) = [threadRunner_task, monitor_task]
   \<and> launched (fst (Start (fst (Start (world_1_1 None)))))
       = [threadRunner_task, monitor_task, threadRunner_task, monitor_task]"
  by (simp add: Start_eq world_1_1_def fresh_def pool_1_1_def)

text \<open>
  Claim C5 as amended: every \<open>Start\<close>, the first or a further one, launches \<open>min\<close> workers
  and then one monitor, adds \<open>min\<close> to \<open>currentThreads\<close> (which makes it \<open>min\<close> on the first
  call, where it was 0), sets \<open>started\<close> and returns no error; \<open>threadState\<close> is as before.
\<close>

theorem Start_counts:
  assumes "0 \<le>s minThreads (pool w)"
  shows "Start w =
           (w\<lparr>pool := (pool w)\<lparr>currentThreads := currentThreads (pool w) + minThreads (pool w),
                                 started := True\<rparr>,
              launched := launched w @ replicate (nat (sint (minThreads (pool w)))) threadRunner_task
                            @ [monitor_task]\<rparr>,
            None)
       \<and> (currentThreads (pool w) = 0 \<longrightarrow>
            currentThreads (pool (fst (Start w))) = minThreads (pool w))
       \<and> threadState (pool (fst (Start w))) = threadState (pool w)
       \<and> minThreads (pool (fst (Start w))) = minThreads (pool w)"
  using of_nat_nat_sint [OF assms] by (simp add: Start_eq)

theorem Start_counts_witness:
  "0 \<le>s minThreads (pool (world_1_1 None))
   \<and> launched (fst (Start (world_1_1 None))) = [threadRunner_task, monitor_task]
   \<and> currentThreads (pool (fst (Start (world_1_1 None)))) = 1
   \<and> started (pool (fst (Start (world_1_1 None))))
   \<and> snd (Start (world_1_1 None)) = None"
proof -
  have nonneg: "0 \<le>s minThreads (pool (world_1_1 None))"
    by (simp add: world_1_1_def fresh_def pool_1_1_def word_sle_eq)
  have one: "replicate (nat (sint (minThreads (pool (world_1_1 None))))) threadRunner_task
      = [threadRunner_task]"
    by (simp add: world_1_1_def fresh_def pool_1_1_def)
  show ?thesis
    using Start_counts [OF nonneg] nonneg one
    by (simp add: world_1_1_def fresh_def pool_1_1_def)
qed




text \<open>
  Claim C10: \<open>Close\<close> writes to \<open>closed\<close> and to nothing else, so a second \<open>Close\<close> changes
  nothing; and after any sequence of operations on a pool that \<open>NewThreadPool\<close> returned,
  the six configuration accessors return what was given to \<open>NewThreadPool\<close>.
\<close>

theorem Close_frame_accessors_fixed:
  fixes p :: "('fq, 'eq) threadPool" and w :: "('fq, 'eq, 'e) world"
    and operations :: "('a, 'e) operation list"
  assumes "NewThreadPool nm mn mx idle fq eq = Inr p"
  shows "name (pool (Close w)) = name (pool w)
       \<and> minThreads (pool (Close w)) = minThreads (pool w)
       \<and> maxThreads (pool (Close w)) = maxThreads (pool w)
       \<and> idleDecay (pool (Close w)) = idleDecay (pool w)
       \<and> functionalQueue (pool (Close w)) = functionalQueue (pool w)
       \<and> errorQueue (pool (Close w)) = errorQueue (pool w)
       \<and> started (pool (Close w)) = started (pool w)
       \<and> currentThreads (pool (Close w)) = currentThreads (pool w)
       \<and> threadState (pool (Close w)) = threadState (pool w)
       \<and> closed (pool (Close w))
       \<and> Close (Close w) = Close w
       \<and> GetName (run operations (fresh p)) = nm
       \<and> GetMinThreads (run operations (fresh p)) = mn
       \<and> GetMaxThreads (run operations (fresh p)) = mx
       \<and> GetIdleDecayDuration (run operations (fresh p)) = idle
       \<and> Some (GetFunctionQueue (run operations (fresh p))) = fq
       \<and> GetErrorQueue (run operations (fresh p)) = eq"
proof -
  from assms obtain q where fq: "fq = Some q"
    and p: "p = \<lparr>name = nm, started = False, closed = False, minThreads = mn, maxThreads = mx,
               idleDecay = idle, functionalQueue = q, errorQueue = eq, currentThreads = 0,
               threadState = Map.empty\<rparr>"
    by (cases fq) (auto simp add: NewThreadPool_def split: if_splits)
  have "configuration (run operations (fresh p)) = configuration (fresh p :: ('fq, 'eq, 'e) world)"
    by (rule configuration_run)
  also have "\<dots> = (nm, mn, mx, idle, q, eq)"
    by (simp add: configuration_def accessor_defs fresh_def p)
  finally have fixed: "configuration (run operations (fresh p)) = (nm, mn, mx, idle, q, eq)" .
  have frame: "Close w = w\<lparr>pool := (pool w)\<lparr>closed := True\<rparr>\<rparr>"
    by (simp add: Close_def)
  show ?thesis
    using fixed by (simp add: frame fq configuration_def Close_def)
qed

theorem Close_frame_accessors_fixed_witness:
  "NewThreadPool ''pool'' 1 1 60 (Some ()) None = Inr (pool_1_1 None)
   \<and> closed (pool (Close (world_1_1 None)))
   \<and> started (pool (Close (world_1_1 None))) = started (pool (world_1_1 None))
   \<and> GetName (run some_operations (world_1_1 None)) = ''pool''
   \<and> GetMaxThreads (run some_operations (world_1_1 None)) = 1"
  using Close_frame_accessors_fixed [OF NewThreadPool_pool_1_1 [of None],
      where w = "world_1_1 None" and operations = some_operations]
    NewThreadPool_pool_1_1 [of None]
  by (simp add: world_1_1_def)

end
